theory Spec2Isabelle
  imports Main "HOL-Library.Word"
begin

unbundle bit_operations_syntax

section \<open>Data model of the Axis Communications vendor extension\<close>

text \<open>
  The embedding follows \<^verbatim>\<open>lib/vendors/axis-communications/sv_vendor_axis_communications.c\<close>.
  Bytes are 8-bit words, \<^verbatim>\<open>size_t\<close> values are natural numbers (no object of
  \<open>2 ^ 64\<close> bytes exists, so the arithmetic on sizes never wraps), the
  \<^verbatim>\<open>uint16_t\<close> that tracks the last two bytes written is a 16-bit word.

  A pointer is an \<open>option\<close>: \<open>None\<close> is \<^verbatim>\<open>NULL\<close>, \<open>Some xs\<close> is a pointer to an
  object whose bytes are \<open>xs\<close>. A C string is kept as its characters, without the
  terminating NUL, so \<^verbatim>\<open>strlen\<close> is \<open>length\<close>.
\<close>

type_synonym byte = "8 word"

text \<open>The internal return codes \<^verbatim>\<open>svi_rc\<close> and the public \<^verbatim>\<open>SignedVideoReturnCode\<close>.\<close>

datatype svi_rc =
    SVI_OK
  | SVI_MEMORY
  | SVI_INVALID_PARAMETER
  | SVI_NOT_SUPPORTED
  | SVI_INCOMPATIBLE_VERSION
  | SVI_DECODING_ERROR
  | SVI_UNKNOWN

datatype SignedVideoReturnCode =
    SV_OK
  | SV_MEMORY
  | SV_INVALID_PARAMETER
  | SV_NOT_SUPPORTED
  | SV_INCOMPATIBLE_VERSION
  | SV_DECODING_ERROR
  | SV_UNKNOWN

text \<open>
  What C leaves undefined is a value of its own, so that no theorem silently relies on
  a read outside an object or on a write through \<^verbatim>\<open>NULL\<close>.
\<close>

datatype fault = Out_of_bounds_read | Null_pointer_access | Buffer_overflow

text \<open>
  \<^verbatim>\<open>struct _sv_vendor_axis_communications_t\<close>. The attestation is a heap object; its
  length is the capacity that was allocated for it.
\<close>

record sv_vendor_axis_communications_t =
  attestation :: "byte list option"
  attestation_size :: nat
  certificate_chain :: "byte list option"

text \<open>\<^verbatim>\<open>sv_vendor_axis_communications_setup\<close>: \<^verbatim>\<open>calloc\<close> zeroes every field.\<close>

definition sv_vendor_axis_communications_setup :: sv_vendor_axis_communications_t where
  "sv_vendor_axis_communications_setup =
     \<lparr>attestation = None, attestation_size = 0, certificate_chain = None\<rparr>"

section \<open>Writing bytes with emulation prevention\<close>

text \<open>
  Modelled from the spec: \<^verbatim>\<open>write_byte\<close> and \<^verbatim>\<open>write_byte_many\<close> are defined in the
  TLV codec, which is not among the sources at hand. The helper "enforces
  emulation-prevention on the wire during encoding (tracking the last two bytes)":
  the byte \<open>0x03\<close> is inserted after \<open>0x0000\<close>, that is (H.26x) in front of a byte
  of value at most \<open>0x03\<close> that follows two zero bytes. The writer state is the pair of
  \<^verbatim>\<open>*last_two_bytes\<close> and the bytes written so far through \<^verbatim>\<open>*data\<close>.
\<close>

type_synonym writer = "16 word \<times> byte list"

definition write_byte :: "writer \<Rightarrow> byte \<Rightarrow> bool \<Rightarrow> writer" where
  "write_byte w curr_byte do_emulation_prevention =
     (let (last_two_bytes, out) = w;
          (last_two_bytes, out) =
            (if do_emulation_prevention \<and> curr_byte AND NOT 3 = 0 \<and> last_two_bytes = 0
             then (push_bit 8 last_two_bytes OR 3, out @ [3])
             else (last_two_bytes, out))
      in (push_bit 8 last_two_bytes OR ucast curr_byte, out @ [curr_byte]))"

text \<open>\<^verbatim>\<open>write_byte_many\<close> writes the first \<open>sz\<close> bytes of \<open>src\<close>, one at a time.\<close>

definition write_byte_many :: "writer \<Rightarrow> byte list \<Rightarrow> nat \<Rightarrow> bool \<Rightarrow> writer" where
  "write_byte_many w src sz do_emulation_prevention =
     fold (\<lambda>b w. write_byte w b do_emulation_prevention) (take sz src) w"

section \<open>Encoding the vendor handle\<close>

text \<open>
  \<^verbatim>\<open>encode_axis_communications_handle(handle, last_two_bytes, data)\<close>. The argument
  \<open>data_given\<close> says whether \<^verbatim>\<open>data\<close> is non-NULL; the caller's buffer is taken to
  be large enough. The result is the returned size, the final \<^verbatim>\<open>*last_two_bytes\<close> and
  the bytes stored through \<^verbatim>\<open>data\<close>. Reading \<^verbatim>\<open>attestation[jj]\<close> through a NULL
  pointer or beyond the allocated object is a fault.
\<close>

definition encode_axis_communications_handle ::
  "sv_vendor_axis_communications_t option \<Rightarrow> 16 word \<Rightarrow> bool \<Rightarrow> fault + (nat \<times> writer)" where
  "encode_axis_communications_handle handle last_two_bytes data_given =
     (case handle of
        None \<Rightarrow> Inr (0, last_two_bytes, [])
      | Some self \<Rightarrow>
          let data_size = 1 + 1 + attestation_size self +
                (case certificate_chain self of
                   Some c \<Rightarrow> length c + 2
                 | None \<Rightarrow> 2)
          in if \<not> data_given then Inr (data_size, last_two_bytes, [])
             else
               let w = write_byte (last_two_bytes, []) 1 True;
                   w = (case certificate_chain self of
                          Some c \<Rightarrow> write_byte w (of_nat (length c + 1)) True
                        | None \<Rightarrow> write_byte w 1 True);
                   w = (case certificate_chain self of
                          Some c \<Rightarrow> write_byte_many w (c @ [0]) (length c + 1) True
                        | None \<Rightarrow> write_byte w 0 True);
                   w = write_byte w (of_nat (attestation_size self)) True
               in if attestation_size self = 0 then Inr (length (snd w), w)
                  else
                    (case attestation self of
                       None \<Rightarrow> Inl Null_pointer_access
                     | Some a \<Rightarrow>
                         if length a < attestation_size self then Inl Out_of_bounds_read
                         else
                           let w = fold (\<lambda>jj w. write_byte w (a ! jj) True)
                                     [0..<attestation_size self] w
                           in Inr (length (snd w), w)))"

section \<open>Decoding the vendor handle\<close>

text \<open>
  The outcomes of the two allocations that \<^verbatim>\<open>decode_axis_communications_handle\<close> can
  request: \<open>True\<close> when the allocator returns memory.
\<close>

record decode_allocs =
  string_alloc_ok :: bool
  attestation_alloc_ok :: bool

text \<open>
  The C string that starts at offset \<open>p\<close> of an object: its characters up to the first
  NUL. Without a NUL before the end of the object \<^verbatim>\<open>strlen\<close> reads outside of it.
\<close>

definition c_string_at :: "byte list \<Rightarrow> nat \<Rightarrow> byte list option" where
  "c_string_at buf p =
     (if 0 \<in> set (drop p buf) then Some (takeWhile (\<lambda>b. b \<noteq> 0) (drop p buf)) else None)"

text \<open>
  Modelled from the spec: \<^verbatim>\<open>allocate_memory_and_copy_string\<close> is declared in
  \<^verbatim>\<open>signed_video_authenticity.h\<close> and defined outside the sources at hand. It makes
  \<^verbatim>\<open>*dst_str\<close> a copy of the source string; "allocation failure is a fatal error code",
  here \<open>SVI_MEMORY\<close>, and then no string is left behind.
\<close>

definition allocate_memory_and_copy_string ::
  "bool \<Rightarrow> byte list option \<Rightarrow> byte list \<Rightarrow> svi_rc \<times> byte list option" where
  "allocate_memory_and_copy_string alloc_ok dst_str src_str =
     (if alloc_ok then (SVI_OK, Some src_str) else (SVI_MEMORY, None))"

text \<open>
  The attestation part of the decoder, from \<^verbatim>\<open>self->attestation_size = *data_ptr++\<close> to
  the end of the \<^verbatim>\<open>memcpy\<close> block. \<open>buf\<close> holds the bytes of the object that
  \<^verbatim>\<open>data\<close> points into, from \<^verbatim>\<open>data\<close> on, and \<open>p\<close> is the offset of \<^verbatim>\<open>data_ptr\<close>.
  The result of \<^verbatim>\<open>malloc\<close> is not checked by the source: a failed allocation makes the
  \<^verbatim>\<open>memcpy\<close> write through NULL. An attestation that exists already is reused whatever
  its capacity. The bytes of a fresh allocation are all overwritten at once, so their
  initial value does not matter.
\<close>

definition decode_attestation ::
  "bool \<Rightarrow> sv_vendor_axis_communications_t \<Rightarrow> byte list \<Rightarrow> nat \<Rightarrow>
   fault + (sv_vendor_axis_communications_t \<times> nat)" where
  "decode_attestation alloc_ok self buf p =
     (if length buf \<le> p then Inl Out_of_bounds_read
      else
        let n = unat (buf ! p);
            self = self\<lparr>attestation_size := n\<rparr>;
            p = p + 1;
            self = (if 0 < n \<and> attestation self = None
                    then self\<lparr>attestation := (if alloc_ok then Some (replicate n 0) else None)\<rparr>
                    else self)
        in if 0 < n then
             (case attestation self of
                None \<Rightarrow> Inl Null_pointer_access
              | Some a \<Rightarrow>
                  if length a < n then Inl Buffer_overflow
                  else if length buf < p + n then Inl Out_of_bounds_read
                  else Inr (self\<lparr>attestation := Some (take n (drop p buf) @ drop n a)\<rparr>, p + n))
           else Inr (self, p))"

text \<open>
  \<^verbatim>\<open>decode_axis_communications_handle(handle, data, data_size)\<close>. The macros
  \<^verbatim>\<open>SVI_TRY\<close>, \<^verbatim>\<open>SVI_THROW_IF\<close>, \<^verbatim>\<open>SVI_THROW\<close>, \<^verbatim>\<open>SVI_CATCH\<close> and \<^verbatim>\<open>SVI_DONE\<close> are
  the usual ones: the first failing check sets \<^verbatim>\<open>status\<close> and leaves the block, the
  catch part is empty. The version and the size of the certificate chain are read
  before the block is entered.
\<close>

definition decode_axis_communications_handle ::
  "decode_allocs \<Rightarrow> sv_vendor_axis_communications_t option \<Rightarrow> byte list \<Rightarrow> nat \<Rightarrow>
   fault + (svi_rc \<times> sv_vendor_axis_communications_t option)" where
  "decode_axis_communications_handle al handle buf data_size =
     (case handle of
        None \<Rightarrow> Inr (SVI_INVALID_PARAMETER, None)
      | Some self \<Rightarrow>
          if length buf < 2 then Inl Out_of_bounds_read
          else
            let version = buf ! 0; cert_size = buf ! 1
            in if version = 0 then Inr (SVI_INCOMPATIBLE_VERSION, Some self)
               else
                 (case c_string_at buf 2 of
                    None \<Rightarrow> Inl Out_of_bounds_read
                  | Some src \<Rightarrow>
                      let (rc, c) = allocate_memory_and_copy_string (string_alloc_ok al)
                                      (certificate_chain self) src;
                          self = self\<lparr>certificate_chain := c\<rparr>
                      in if rc \<noteq> SVI_OK then Inr (rc, Some self)
                         else
                           (case decode_attestation (attestation_alloc_ok al) self buf
                                   (2 + unat cert_size) of
                              Inl f \<Rightarrow> Inl f
                            | Inr (self, p) \<Rightarrow>
                                if p \<noteq> data_size then Inr (SVI_DECODING_ERROR, Some self)
                                else Inr (SVI_OK, Some self))))"

section \<open>Setting the attestation report\<close>

text \<open>
  The tags of the TLV codec, by the names the specification gives them, and the
  encoders of this vendor, \<^verbatim>\<open>axis_communications_encoders\<close>.
\<close>

datatype sv_tlv_tag_t =
    GENERAL_TAG
  | PRODUCT_INFO_TAG
  | ARBITRARY_DATA_TAG
  | PUBLIC_KEY_TAG
  | HASH_LIST_TAG
  | SIGNATURE_TAG
  | CRYPTO_INFO_TAG
  | VENDOR_AXIS_COMMUNICATIONS_TAG

definition AXIS_COMMUNICATIONS_NUM_ENCODERS :: nat where
  "AXIS_COMMUNICATIONS_NUM_ENCODERS = 1"

definition axis_communications_encoders :: "sv_tlv_tag_t list" where
  "axis_communications_encoders = [VENDOR_AXIS_COMMUNICATIONS_TAG]"

text \<open>
  The members of \<^verbatim>\<open>signed_video_t\<close> that the vendor code touches. The session has
  members named like those of the handle; here they carry the prefix \<open>sv_\<close>.
\<close>

record signed_video_t =
  vendor_handle :: "sv_vendor_axis_communications_t option"
  sv_attestation :: "byte list option"
  sv_attestation_size :: nat
  sv_certificate_chain :: "byte list option"
  vendor_encoders :: "sv_tlv_tag_t list option"
  num_vendor_encoders :: nat

text \<open>The outcomes of the four allocations of the setter, in the order of the source.\<close>

record set_allocs =
  handle_attestation_ok :: bool
  sv_attestation_ok :: bool
  handle_certificate_chain_ok :: bool
  sv_certificate_chain_ok :: bool

text \<open>
  The local state of \<^verbatim>\<open>sv_vendor_axis_communications_set_attestation_report\<close>: the
  session, the handle \<^verbatim>\<open>self\<close> it points to, and the two flags. A part of the function
  either falls through, returns a code, jumps to \<^verbatim>\<open>catch_error\<close>, or has no defined
  behaviour.
\<close>

record locals =
  l_sv :: signed_video_t
  l_self :: sv_vendor_axis_communications_t
  allocated_attestation :: bool
  allocated_certificate_chain :: bool

datatype step =
    Next locals
  | Return_code SignedVideoReturnCode locals
  | Goto_catch_error locals
  | Undefined_behaviour fault

text \<open>The block \<^verbatim>\<open>if (attestation) { ... }\<close>.\<close>

definition set_attestation :: "set_allocs \<Rightarrow> byte list option \<Rightarrow> nat \<Rightarrow> locals \<Rightarrow> step" where
  "set_attestation al attestation_in attestation_size_in l =
     (case attestation_in of
        None \<Rightarrow> Next l
      | Some src \<Rightarrow>
          if attestation (l_self l) \<noteq> None \<or> sv_attestation (l_sv l) \<noteq> None
          then Return_code SV_NOT_SUPPORTED l
          else
            let l = l\<lparr>allocated_attestation := True\<rparr>
            in if \<not> handle_attestation_ok al then Goto_catch_error l
               else if length src < attestation_size_in then Undefined_behaviour Out_of_bounds_read
               else
                 let l = l\<lparr>l_self := (l_self l)
                            \<lparr>attestation := Some (take attestation_size_in src),
                             attestation_size := attestation_size_in\<rparr>\<rparr>
                 in if \<not> sv_attestation_ok al then Goto_catch_error l
                    else Next (l\<lparr>l_sv := (l_sv l)
                                 \<lparr>sv_attestation := Some (take attestation_size_in src),
                                  sv_attestation_size := attestation_size_in\<rparr>\<rparr>))"

text \<open>The block \<^verbatim>\<open>if (certificate_chain) { ... }\<close>.\<close>

definition set_certificate_chain :: "set_allocs \<Rightarrow> byte list option \<Rightarrow> locals \<Rightarrow> step" where
  "set_certificate_chain al certificate_chain_in l =
     (case certificate_chain_in of
        None \<Rightarrow> Next l
      | Some src \<Rightarrow>
          if certificate_chain (l_self l) \<noteq> None \<or> sv_certificate_chain (l_sv l) \<noteq> None
          then Return_code SV_NOT_SUPPORTED l
          else
            let l = l\<lparr>allocated_certificate_chain := True\<rparr>
            in if \<not> handle_certificate_chain_ok al then Goto_catch_error l
               else
                 let l = l\<lparr>l_self := (l_self l)\<lparr>certificate_chain := Some src\<rparr>\<rparr>
                 in if \<not> sv_certificate_chain_ok al then Goto_catch_error l
                    else Next (l\<lparr>l_sv := (l_sv l)\<lparr>sv_certificate_chain := Some src\<rparr>\<rparr>))"

text \<open>The label \<^verbatim>\<open>catch_error\<close>: what the flags name is freed and reset.\<close>

definition catch_error :: "locals \<Rightarrow> locals" where
  "catch_error l =
     (let l = (if allocated_attestation l
               then l\<lparr>l_self := (l_self l)\<lparr>attestation := None, attestation_size := 0\<rparr>,
                      l_sv := (l_sv l)\<lparr>sv_attestation := None, sv_attestation_size := 0\<rparr>\<rparr>
               else l)
      in if allocated_certificate_chain l
         then l\<lparr>l_self := (l_self l)\<lparr>certificate_chain := None\<rparr>,
                l_sv := (l_sv l)\<lparr>sv_certificate_chain := None\<rparr>\<rparr>
         else l)"

text \<open>The session as the caller sees it afterwards: \<^verbatim>\<open>self\<close> is \<^verbatim>\<open>sv->vendor_handle\<close>.\<close>

definition session_of :: "locals \<Rightarrow> signed_video_t" where
  "session_of l = (l_sv l)\<lparr>vendor_handle := Some (l_self l)\<rparr>"

text \<open>
  \<^verbatim>\<open>sv_vendor_axis_communications_set_attestation_report(sv, attestation,
  attestation_size, certificate_chain)\<close>. The result is the return code with the
  session afterwards.
\<close>

definition sv_vendor_axis_communications_set_attestation_report ::
  "set_allocs \<Rightarrow> signed_video_t option \<Rightarrow> byte list option \<Rightarrow> nat \<Rightarrow> byte list option \<Rightarrow>
   fault + (SignedVideoReturnCode \<times> signed_video_t option)" where
  "sv_vendor_axis_communications_set_attestation_report al sv attestation_in
       attestation_size_in certificate_chain_in =
     (case sv of
        None \<Rightarrow> Inr (SV_INVALID_PARAMETER, None)
      | Some s \<Rightarrow>
          if attestation_in = None \<and> certificate_chain_in = None
          then Inr (SV_INVALID_PARAMETER, sv)
          else if (attestation_in \<noteq> None \<and> attestation_size_in = 0) \<or>
                  (attestation_in = None \<and> 0 < attestation_size_in)
          then Inr (SV_INVALID_PARAMETER, sv)
          else
            (case vendor_handle s of
               None \<Rightarrow> Inr (SV_NOT_SUPPORTED, sv)
             | Some self \<Rightarrow>
                 let l = \<lparr>l_sv = s, l_self = self, allocated_attestation = False,
                          allocated_certificate_chain = False\<rparr>
                 in (case set_attestation al attestation_in attestation_size_in l of
                       Undefined_behaviour f \<Rightarrow> Inl f
                     | Return_code rc l \<Rightarrow> Inr (rc, Some (session_of l))
                     | Goto_catch_error l \<Rightarrow> Inr (SV_MEMORY, Some (session_of (catch_error l)))
                     | Next l \<Rightarrow>
                         (case set_certificate_chain al certificate_chain_in l of
                            Undefined_behaviour f \<Rightarrow> Inl f
                          | Return_code rc l \<Rightarrow> Inr (rc, Some (session_of l))
                          | Goto_catch_error l \<Rightarrow>
                              Inr (SV_MEMORY, Some (session_of (catch_error l)))
                          | Next l \<Rightarrow>
                              Inr (SV_OK,
                                Some ((session_of l)
                                  \<lparr>vendor_encoders := Some axis_communications_encoders,
                                   num_vendor_encoders :=
                                     AXIS_COMMUNICATIONS_NUM_ENCODERS\<rparr>))))))"

section \<open>Validation entry point\<close>

text \<open>
  The declarations of \<^verbatim>\<open>lib/src/signed_video_h26x_internal.h\<close> that the entry point
  of the validation side needs: the frame types, the parsed NALU with its
  \<^verbatim>\<open>is_valid\<close> member ("a valid H26x NALU (1), invalid (0) or has errors (-1)"), and
  the list item with its \<^verbatim>\<open>validation_status\<close> character.
\<close>

datatype SignedVideoFrameType =
    NALU_TYPE_UNDEFINED
  | NALU_TYPE_SEI
  | NALU_TYPE_I
  | NALU_TYPE_P
  | NALU_TYPE_PS
  | NALU_TYPE_OTHER

datatype SignedVideoCodec = SV_CODEC_H264 | SV_CODEC_H265

record h26x_nalu_t =
  nalu_type :: SignedVideoFrameType
  is_valid :: int
  is_hashable :: bool
  is_gop_sei :: bool

record h26x_nalu_list_item_t =
  nalu :: h26x_nalu_t
  validation_status :: char

text \<open>
  The members of the session that the entry point uses: the codec, the list of items
  in arrival order, and the remaining state of the validation engine, of a type \<open>'e\<close>
  that is left open.
\<close>

record 'e validation_session =
  codec :: SignedVideoCodec
  nalu_list :: "h26x_nalu_list_item_t list"
  engine_state :: 'e

text \<open>
  Modelled from the spec: \<^verbatim>\<open>signed_video_add_nalu_and_authenticate\<close> is defined
  outside the sources at hand; its callers are the tests. The specification says
  that nulls and zero sizes are \<open>InvalidParameter\<close>; that "an unparseable NAL yields
  \<open>is_valid = -1\<close> (error) and downstream marks the item \<open>E\<close>; \<open>is_valid = 0\<close> is
  returned for recognisably invalid NALUs", for which the item becomes \<open>U\<close>; that in
  both cases "the public add-and-authenticate call still returns success"; and that
  every other NAL unit is appended as an item with status \<open>P\<close> and handed to the
  validation engine. The parser \<^verbatim>\<open>parse_nalu_info\<close> (declared in the header, with
  the flag \<^verbatim>\<open>check_trailing_bytes\<close>) and the engine are parameters.
\<close>

definition signed_video_add_nalu_and_authenticate ::
  "(byte list \<Rightarrow> nat \<Rightarrow> SignedVideoCodec \<Rightarrow> bool \<Rightarrow> h26x_nalu_t) \<Rightarrow>
   ('e validation_session \<Rightarrow> SignedVideoReturnCode \<times> 'e validation_session) \<Rightarrow>
   'e validation_session option \<Rightarrow> byte list option \<Rightarrow> nat \<Rightarrow>
   SignedVideoReturnCode \<times> 'e validation_session option" where
  "signed_video_add_nalu_and_authenticate parse_nalu_info authenticate sv nalu_data
       nalu_data_size =
     (case (sv, nalu_data) of
        (Some self, Some bytes) \<Rightarrow>
          if nalu_data_size = 0 then (SV_INVALID_PARAMETER, sv)
          else
            let parsed = parse_nalu_info bytes nalu_data_size (codec self) True;
                append = (\<lambda>st. self\<lparr>nalu_list := nalu_list self @
                            [\<lparr>nalu = parsed, validation_status = st\<rparr>]\<rparr>)
            in if is_valid parsed < 0 then (SV_OK, Some (append CHR ''E''))
               else if is_valid parsed = 0 then (SV_OK, Some (append CHR ''U''))
               else
                 let (rc, self) = authenticate (append CHR ''P'') in (rc, Some self)
      | _ \<Rightarrow> (SV_INVALID_PARAMETER, sv))"

section \<open>Notions used by the properties\<close>

text \<open>
  A handle is consistent when the attestation it announces is there: a NULL
  attestation has size zero, and an allocated one holds at least
  \<^verbatim>\<open>attestation_size\<close> bytes. \<^verbatim>\<open>calloc\<close>, the setter and the decoder produce such
  handles.
\<close>

definition handle_ok :: "sv_vendor_axis_communications_t \<Rightarrow> bool" where
  "handle_ok self =
     (case attestation self of
        None \<Rightarrow> attestation_size self = 0
      | Some a \<Rightarrow> attestation_size self \<le> length a)"

text \<open>
  The version-1 value of the vendor TLV before emulation prevention: version,
  length of the certificate chain with its NUL, the chain, the NUL, the size of the
  attestation, the attestation. The two length bytes are what a \<^verbatim>\<open>uint8_t\<close> keeps of
  the lengths.
\<close>

definition axis_payload :: "sv_vendor_axis_communications_t \<Rightarrow> byte list" where
  "axis_payload self =
     (let c = (case certificate_chain self of None \<Rightarrow> [] | Some c \<Rightarrow> c);
          a = (case attestation self of
                 None \<Rightarrow> []
               | Some a \<Rightarrow> take (attestation_size self) a)
      in [1, of_nat (length c + 1)] @ c @ [0] @ [of_nat (attestation_size self)] @ a)"

text \<open>
  The number of emulation-prevention bytes that a sequence of bytes needs on the wire
  when the two bytes before it are \<open>last_two_bytes\<close>: one in front of every byte of
  value at most 3 that follows two zero bytes of the escaped stream.
\<close>

fun emulation_prevention_bytes :: "16 word \<Rightarrow> byte list \<Rightarrow> nat" where
  "emulation_prevention_bytes last_two_bytes [] = 0"
| "emulation_prevention_bytes last_two_bytes (b # bs) =
     (if b AND NOT 3 = 0 \<and> last_two_bytes = 0
      then Suc (emulation_prevention_bytes
                  (push_bit 8 (push_bit 8 last_two_bytes OR 3) OR ucast b) bs)
      else emulation_prevention_bytes (push_bit 8 last_two_bytes OR ucast b) bs)"

abbreviation write_bytes :: "writer \<Rightarrow> byte list \<Rightarrow> writer" where
  "write_bytes w xs \<equiv> fold (\<lambda>b w. write_byte w b True) xs w"

text \<open>
  Modelled from the spec: the removal of emulation-prevention bytes belongs to the
  NALU parser, which is defined outside the sources at hand. The parser strips them
  "(\<open>0x000003\<close> to \<open>0x0000\<close>)": a byte \<open>0x03\<close> that follows two zero bytes of the
  stream as it is on the wire is dropped. \<open>last_two_bytes\<close> holds the two bytes of
  the wire before the sequence.
\<close>

fun strip_emulation_prevention :: "16 word \<Rightarrow> byte list \<Rightarrow> byte list" where
  "strip_emulation_prevention last_two_bytes [] = []"
| "strip_emulation_prevention last_two_bytes (b # bs) =
     (if last_two_bytes = 0 \<and> b = 3
      then strip_emulation_prevention (push_bit 8 last_two_bytes OR ucast b) bs
      else b # strip_emulation_prevention (push_bit 8 last_two_bytes OR ucast b) bs)"

text \<open>
  A well-formed version-1 value: the version byte 1, the length \<open>cert_chain_len\<close>,
  a certificate chain of that length whose last byte is its only NUL, the length of
  the attestation, and exactly that many attestation bytes, with nothing after them.
\<close>

definition well_formed_axis_tlv_v1 :: "byte list \<Rightarrow> bool" where
  "well_formed_axis_tlv_v1 bytes =
     (case bytes of
        version # cert_chain_len # rest \<Rightarrow>
          version = 1 \<and> 0 < unat cert_chain_len \<and> unat cert_chain_len < length rest \<and>
          (let cert_chain = take (unat cert_chain_len) rest
           in last cert_chain = 0 \<and> 0 \<notin> set (butlast cert_chain) \<and>
              (case drop (unat cert_chain_len) rest of
                 attestation_len # att \<Rightarrow> length att = unat attestation_len
               | [] \<Rightarrow> False))
      | _ \<Rightarrow> False)"

definition axis_tlv_v1 :: "byte list \<Rightarrow> byte list \<Rightarrow> byte list" where
  "axis_tlv_v1 c a = [1, of_nat (length c + 1)] @ c @ [0] @ [of_nat (length a)] @ a"

text \<open>
  Two states for the examples: a session on which the certificate chain \<open>A\<close> has been
  set and the attestation has not, and a handle that holds the certificate chain
  \<open>AB\<close> and the attestation \<open>7, 8\<close>.
\<close>

definition session_with_chain :: signed_video_t where
  "session_with_chain =
     \<lparr>vendor_handle = Some \<lparr>attestation = None, attestation_size = 0,
                             certificate_chain = Some [65]\<rparr>,
      sv_attestation = None, sv_attestation_size = 0,
      sv_certificate_chain = Some [65],
      vendor_encoders = Some axis_communications_encoders, num_vendor_encoders = 1\<rparr>"

definition handle_with_both :: sv_vendor_axis_communications_t where
  "handle_with_both =
     \<lparr>attestation = Some [7, 8], attestation_size = 2, certificate_chain = Some [65, 66]\<rparr>"

text \<open>The conditions of the setter, in the words of its comments.\<close>

definition invalid_parameters ::
  "signed_video_t option \<Rightarrow> byte list option \<Rightarrow> nat \<Rightarrow> byte list option \<Rightarrow> bool" where
  "invalid_parameters sv attestation_in attestation_size_in certificate_chain_in =
     (sv = None \<or> (attestation_in = None \<and> certificate_chain_in = None) \<or>
      (attestation_in \<noteq> None \<and> attestation_size_in = 0) \<or>
      (attestation_in = None \<and> 0 < attestation_size_in))"

definition attestation_already_set :: "signed_video_t \<Rightarrow> bool" where
  "attestation_already_set s =
     (sv_attestation s \<noteq> None \<or>
      (case vendor_handle s of None \<Rightarrow> False | Some self \<Rightarrow> attestation self \<noteq> None))"

definition certificate_chain_already_set :: "signed_video_t \<Rightarrow> bool" where
  "certificate_chain_already_set s =
     (sv_certificate_chain s \<noteq> None \<or>
      (case vendor_handle s of
         None \<Rightarrow> False
       | Some self \<Rightarrow> certificate_chain self \<noteq> None))"

definition all_allocations_succeed :: "set_allocs \<Rightarrow> bool" where
  "all_allocations_succeed al =
     (handle_attestation_ok al \<and> sv_attestation_ok al \<and>
      handle_certificate_chain_ok al \<and> sv_certificate_chain_ok al)"

text \<open>The caller's attestation object holds the bytes that \<^verbatim>\<open>memcpy\<close> reads.\<close>

definition attestation_readable :: "byte list option \<Rightarrow> nat \<Rightarrow> bool" where
  "attestation_readable attestation_in attestation_size_in =
     (case attestation_in of None \<Rightarrow> True | Some src \<Rightarrow> attestation_size_in \<le> length src)"

definition return_code ::
  "fault + (SignedVideoReturnCode \<times> signed_video_t option) \<Rightarrow> SignedVideoReturnCode option" where
  "return_code r = (case r of Inl f \<Rightarrow> None | Inr (rc, s) \<Rightarrow> Some rc)"

section \<open>The setter unwinds its allocations\<close>

lemmas set_attestation_report_defs =
  sv_vendor_axis_communications_set_attestation_report_def set_attestation_def
  set_certificate_chain_def catch_error_def session_of_def

text \<open>
  Claim C5. The setter is called with an attestation and a certificate chain on a
  session whose handle and whose own members hold neither of them. If any of the four
  allocations fails, the call returns \<open>SV_MEMORY\<close> and the session is what it was
  before the call, with both attestation sizes at zero: the attestation and the
  certificate chain of the handle and of the session are all unset again, whichever
  allocation failed, and the vendor encoders are not registered.
\<close>

theorem set_attestation_report_unwinds:
  assumes handle: "vendor_handle s = Some self"
    and size: "0 < n" "n \<le> length att"
    and unset: "attestation self = None" "sv_attestation s = None"
      "certificate_chain self = None" "sv_certificate_chain s = None"
    and fails: "\<not> (handle_attestation_ok al \<and> sv_attestation_ok al \<and>
      handle_certificate_chain_ok al \<and> sv_certificate_chain_ok al)"
  shows "sv_vendor_axis_communications_set_attestation_report al (Some s) (Some att) n (Some cert)
       = Inr (SV_MEMORY,
              Some (s\<lparr>vendor_handle := Some (self\<lparr>attestation_size := 0\<rparr>),
                      sv_attestation_size := 0\<rparr>))"
  using assms by (auto simp add: set_attestation_report_defs Let_def)

text \<open>
  The last allocation fails, after three that succeeded: everything is released.
\<close>

theorem set_attestation_report_unwinds_witness:
  "sv_vendor_axis_communications_set_attestation_report
     \<lparr>handle_attestation_ok = True, sv_attestation_ok = True,
      handle_certificate_chain_ok = True, sv_certificate_chain_ok = False\<rparr>
     (Some \<lparr>vendor_handle = Some sv_vendor_axis_communications_setup,
            sv_attestation = None, sv_attestation_size = 0, sv_certificate_chain = None,
            vendor_encoders = None, num_vendor_encoders = 0\<rparr>)
     (Some [1, 2]) 2 (Some [65])
   = Inr (SV_MEMORY,
          Some \<lparr>vendor_handle = Some sv_vendor_axis_communications_setup,
                sv_attestation = None, sv_attestation_size = 0, sv_certificate_chain = None,
                vendor_encoders = None, num_vendor_encoders = 0\<rparr>)"
  using set_attestation_report_unwinds
    [of "\<lparr>vendor_handle = Some sv_vendor_axis_communications_setup,
          sv_attestation = None, sv_attestation_size = 0, sv_certificate_chain = None,
          vendor_encoders = None, num_vendor_encoders = 0\<rparr>"
        sv_vendor_axis_communications_setup 2 "[1, 2]"
        "\<lparr>handle_attestation_ok = True, sv_attestation_ok = True,
          handle_certificate_chain_ok = True, sv_certificate_chain_ok = False\<rparr>"
        "[65]"]
  by (simp add: sv_vendor_axis_communications_setup_def)

section \<open>Return codes of the setter\<close>

text \<open>
  Claim C6, as stated, fails: the certificate chain being set is already set, the
  parameters are valid and the session has a vendor handle, yet the call returns
  \<open>SV_MEMORY\<close>, because the attestation is handled first and its allocation fails
  before the certificate chain is looked at.
\<close>

theorem set_attestation_report_memory_before_not_supported:
  "\<not> invalid_parameters (Some session_with_chain) (Some [1]) 1 (Some [66]) \<and>
   certificate_chain_already_set session_with_chain \<and>
   sv_vendor_axis_communications_set_attestation_report
     \<lparr>handle_attestation_ok = False, sv_attestation_ok = True,
      handle_certificate_chain_ok = True, sv_certificate_chain_ok = True\<rparr>
     (Some session_with_chain) (Some [1]) 1 (Some [66])
   = Inr (SV_MEMORY, Some session_with_chain)"
  by (simp add: set_attestation_report_defs invalid_parameters_def
      certificate_chain_already_set_def session_with_chain_def)

text \<open>
  Claim C6, amended. The caller's attestation object holds the bytes to copy. The
  call returns \<open>SV_INVALID_PARAMETER\<close> exactly when the session pointer is NULL, both
  the attestation and the certificate chain are NULL, or the attestation and its size
  disagree. With valid parameters it returns \<open>SV_NOT_SUPPORTED\<close> when the session has
  no vendor handle, when the attestation being set is already set, or when the
  certificate chain being set is already set and either no attestation is being set
  or both allocations for the attestation succeed. With valid parameters, a vendor
  handle, no field being set already set and all allocations succeeding it returns
  \<open>SV_OK\<close>.
\<close>

theorem set_attestation_report_return_codes:
  assumes "attestation_readable a n"
  shows "(return_code (sv_vendor_axis_communications_set_attestation_report al sv a n c)
            = Some SV_INVALID_PARAMETER \<longleftrightarrow> invalid_parameters sv a n c) \<and>
         (sv = Some s \<and> \<not> invalid_parameters sv a n c \<and>
            (vendor_handle s = None \<or> (a \<noteq> None \<and> attestation_already_set s) \<or>
             (c \<noteq> None \<and> certificate_chain_already_set s \<and>
                (a = None \<or> (handle_attestation_ok al \<and> sv_attestation_ok al))))
          \<longrightarrow> return_code (sv_vendor_axis_communications_set_attestation_report al sv a n c)
                = Some SV_NOT_SUPPORTED) \<and>
         (sv = Some s \<and> \<not> invalid_parameters sv a n c \<and> vendor_handle s \<noteq> None \<and>
            \<not> (a \<noteq> None \<and> attestation_already_set s) \<and>
            \<not> (c \<noteq> None \<and> certificate_chain_already_set s) \<and>
            all_allocations_succeed al
          \<longrightarrow> return_code (sv_vendor_axis_communications_set_attestation_report al sv a n c)
                = Some SV_OK)"
proof (intro conjI impI)
  show "return_code (sv_vendor_axis_communications_set_attestation_report al sv a n c)
            = Some SV_INVALID_PARAMETER \<longleftrightarrow> invalid_parameters sv a n c"
    by (auto simp add: set_attestation_report_defs Let_def invalid_parameters_def
        return_code_def split: option.splits)
next
  assume "sv = Some s \<and> \<not> invalid_parameters sv a n c \<and>
            (vendor_handle s = None \<or> (a \<noteq> None \<and> attestation_already_set s) \<or>
             (c \<noteq> None \<and> certificate_chain_already_set s \<and>
                (a = None \<or> (handle_attestation_ok al \<and> sv_attestation_ok al))))"
  with assms show "return_code (sv_vendor_axis_communications_set_attestation_report al sv a n c)
                = Some SV_NOT_SUPPORTED"
    by (auto simp add: set_attestation_report_defs Let_def invalid_parameters_def
        return_code_def attestation_already_set_def certificate_chain_already_set_def
        attestation_readable_def split: option.splits)
next
  assume "sv = Some s \<and> \<not> invalid_parameters sv a n c \<and> vendor_handle s \<noteq> None \<and>
            \<not> (a \<noteq> None \<and> attestation_already_set s) \<and>
            \<not> (c \<noteq> None \<and> certificate_chain_already_set s) \<and>
            all_allocations_succeed al"
  with assms show "return_code (sv_vendor_axis_communications_set_attestation_report al sv a n c)
                = Some SV_OK"
    by (auto simp add: set_attestation_report_defs Let_def invalid_parameters_def
        return_code_def attestation_already_set_def certificate_chain_already_set_def
        all_allocations_succeed_def attestation_readable_def split: option.splits)
qed

text \<open>
  With all allocations succeeding, setting both fields on a session whose certificate
  chain is already set is refused.
\<close>

theorem set_attestation_report_return_codes_witness:
  "attestation_readable (Some [1]) 1 \<and>
   return_code (sv_vendor_axis_communications_set_attestation_report
     \<lparr>handle_attestation_ok = True, sv_attestation_ok = True,
      handle_certificate_chain_ok = True, sv_certificate_chain_ok = True\<rparr>
     (Some session_with_chain) (Some [1]) 1 (Some [66])) = Some SV_NOT_SUPPORTED"
  using set_attestation_report_return_codes
    [of "Some [1]" 1
        "\<lparr>handle_attestation_ok = True, sv_attestation_ok = True,
          handle_certificate_chain_ok = True, sv_certificate_chain_ok = True\<rparr>"
        "Some session_with_chain" "Some [66]" session_with_chain]
  by (simp add: attestation_readable_def invalid_parameters_def
      certificate_chain_already_set_def session_with_chain_def)

section \<open>Return codes of the decoder\<close>

lemmas decode_defs =
  decode_axis_communications_handle_def decode_attestation_def c_string_at_def
  allocate_memory_and_copy_string_def

text \<open>
  Claim C7, as stated, fails in both directions: a value of version 2, newer than the
  known version 1, decodes with \<open>SVI_OK\<close>; and a value of version 0, which is not
  newer, is refused with \<open>SVI_INCOMPATIBLE_VERSION\<close>, also when its declared lengths
  leave a trailing byte.
\<close>

theorem decode_accepts_newer_version:
  "decode_axis_communications_handle \<lparr>string_alloc_ok = True, attestation_alloc_ok = True\<rparr>
     (Some sv_vendor_axis_communications_setup) [2, 1, 0, 0] 4 =
     Inr (SVI_OK, Some \<lparr>attestation = None, attestation_size = 0,
                        certificate_chain = Some []\<rparr>) \<and>
   decode_axis_communications_handle \<lparr>string_alloc_ok = True, attestation_alloc_ok = True\<rparr>
     (Some sv_vendor_axis_communications_setup) [0, 1, 0, 0, 9] 5 =
     Inr (SVI_INCOMPATIBLE_VERSION, Some sv_vendor_axis_communications_setup)"
  by (simp add: decode_defs sv_vendor_axis_communications_setup_def)

text \<open>
  Claim C7, amended. Whenever the decoder returns (all its reads stay inside the
  object that holds the data), it returns \<open>SVI_INCOMPATIBLE_VERSION\<close> exactly when the
  version byte is 0; it returns \<open>SVI_DECODING_ERROR\<close> exactly when the version byte
  is not 0, the copy of the certificate chain got its memory, and the two header
  bytes, the declared length of the certificate chain, the length byte of the
  attestation and the declared length of the attestation do not add up to
  \<^verbatim>\<open>data_size\<close>; and it returns \<open>SVI_OK\<close> exactly when they do.
\<close>

theorem decode_return_codes:
  assumes "decode_axis_communications_handle al (Some self) buf data_size = Inr (rc, h)"
  shows "(rc = SVI_INCOMPATIBLE_VERSION \<longleftrightarrow> buf ! 0 = 0) \<and>
         (rc = SVI_DECODING_ERROR \<longleftrightarrow> buf ! 0 \<noteq> 0 \<and> string_alloc_ok al \<and>
            2 + unat (buf ! 1) + 1 + unat (buf ! (2 + unat (buf ! 1))) \<noteq> data_size) \<and>
         (rc = SVI_OK \<longleftrightarrow> buf ! 0 \<noteq> 0 \<and> string_alloc_ok al \<and>
            2 + unat (buf ! 1) + 1 + unat (buf ! (2 + unat (buf ! 1))) = data_size)"
proof (cases "buf ! 0 = 0")
  case True
  with assms show ?thesis
    by (auto simp add: decode_axis_communications_handle_def split: if_splits)
next
  case False
  show ?thesis
  proof (cases "string_alloc_ok al")
    case no: False
    with assms False show ?thesis
      by (auto simp add: decode_axis_communications_handle_def
          allocate_memory_and_copy_string_def split: if_splits option.splits)
  next
    case yes: True
    with assms False show ?thesis
      by (auto simp add: decode_defs Let_def split: if_splits option.splits sum.splits)
  qed
qed

text \<open>A value of version 1 with one trailing byte.\<close>

theorem decode_return_codes_witness:
  "decode_axis_communications_handle \<lparr>string_alloc_ok = True, attestation_alloc_ok = True\<rparr>
     (Some sv_vendor_axis_communications_setup) [1, 1, 0, 0, 9] 5 =
     Inr (SVI_DECODING_ERROR, Some \<lparr>attestation = None, attestation_size = 0,
                                   certificate_chain = Some []\<rparr>) \<and>
   [1, 1, 0, 0, 9 :: byte] ! 0 \<noteq> 0 \<and>
   2 + unat ([1, 1, 0, 0, 9 :: byte] ! 1) + 1 +
     unat ([1, 1, 0, 0, 9 :: byte] ! (2 + unat ([1, 1, 0, 0, 9 :: byte] ! 1))) \<noteq> 5"
  using decode_return_codes
    [of "\<lparr>string_alloc_ok = True, attestation_alloc_ok = True\<rparr>"
        sv_vendor_axis_communications_setup "[1, 1, 0, 0, 9]" 5 SVI_DECODING_ERROR
        "Some \<lparr>attestation = None, attestation_size = 0, certificate_chain = Some []\<rparr>"]
  by (simp add: decode_defs sv_vendor_axis_communications_setup_def)

section \<open>The decoder keeps what it decoded when it fails\<close>

text \<open>
  Claim C10. The decoder is not atomic on error. The handle holds the certificate
  chain \<open>A\<close> and the attestation byte \<open>1\<close>; the input has version 1, the certificate
  chain \<open>B\<close> with its NUL (declared length 2), an attestation of one byte \<open>9\<close>, and
  one trailing byte, so the declared lengths consume 6 of the 7 bytes. The call
  returns \<open>SVI_DECODING_ERROR\<close>, and the handle now holds the decoded certificate
  chain and the decoded attestation, not the values it had before the call.
\<close>

theorem decode_not_atomic_on_error:
  "decode_axis_communications_handle
     \<lparr>string_alloc_ok = True, attestation_alloc_ok = True\<rparr>
     (Some \<lparr>attestation = Some [1], attestation_size = 1, certificate_chain = Some [65]\<rparr>)
     [1, 2, 66, 0, 1, 9, 7] 7 =
   Inr (SVI_DECODING_ERROR,
        Some \<lparr>attestation = Some [9], attestation_size = 1, certificate_chain = Some [66]\<rparr>)"
  by (simp add: decode_axis_communications_handle_def decode_attestation_def c_string_at_def
      allocate_memory_and_copy_string_def)

section \<open>What the encoder writes\<close>

lemma write_bytes_length:
  "length (snd (write_bytes (l, acc) xs)) =
     length acc + length xs + emulation_prevention_bytes l xs"
  by (induction xs arbitrary: l acc) (simp_all add: write_byte_def)

lemma write_bytes_plain:
  "emulation_prevention_bytes l xs = 0 \<Longrightarrow> snd (write_bytes (l, acc) xs) = acc @ xs"
  by (induction xs arbitrary: l acc) (auto simp add: write_byte_def split: if_splits)

lemma attestation_loop:
  "n \<le> length a \<Longrightarrow>
   fold (\<lambda>jj w. write_byte w (a ! jj) True) [0..<n] w = write_bytes w (take n a)"
  by (induction n) (simp_all add: take_Suc_conv_app_nth)

lemma encode_writes_payload:
  assumes "handle_ok self"
  shows "encode_axis_communications_handle (Some self) l True =
         Inr (length (snd (write_bytes (l, []) (axis_payload self))),
              write_bytes (l, []) (axis_payload self))"
proof (cases "attestation_size self = 0")
  case True
  then show ?thesis
    by (simp add: encode_axis_communications_handle_def axis_payload_def write_byte_many_def
        Let_def split: option.splits)
next
  case False
  with assms obtain a where a: "attestation self = Some a" "attestation_size self \<le> length a"
    by (auto simp add: handle_ok_def split: option.splits)
  with False show ?thesis
    by (simp add: encode_axis_communications_handle_def axis_payload_def write_byte_many_def
        Let_def attestation_loop split: option.splits)
qed

lemma encode_size_query:
  "encode_axis_communications_handle (Some self) l False =
     Inr (1 + 1 + attestation_size self +
            (case certificate_chain self of Some c \<Rightarrow> length c + 2 | None \<Rightarrow> 2), l, [])"
  by (simp add: encode_axis_communications_handle_def)

lemma axis_payload_length:
  "handle_ok self \<Longrightarrow>
   length (axis_payload self) =
     1 + 1 + attestation_size self +
       (case certificate_chain self of Some c \<Rightarrow> length c + 2 | None \<Rightarrow> 2)"
  by (auto simp add: axis_payload_def handle_ok_def split: option.splits)

text \<open>
  Claim C9, as stated, fails: for a handle with the certificate chain \<open>A\<close> and an
  attestation of three zero bytes, and with \<open>0x0101\<close> (that is 257) for
  \<^verbatim>\<open>last_two_bytes\<close>, the size query answers 8, and the writing pass stores 9 bytes,
  one of them an emulation-prevention byte.
\<close>

theorem encode_size_query_misses_emulation_prevention:
  "encode_axis_communications_handle
     (Some \<lparr>attestation = Some [0, 0, 0], attestation_size = 3, certificate_chain = Some [65]\<rparr>)
     257 False = Inr (8, 257, []) \<and>
   encode_axis_communications_handle
     (Some \<lparr>attestation = Some [0, 0, 0], attestation_size = 3, certificate_chain = Some [65]\<rparr>)
     257 True = Inr (9, 768, [1, 2, 65, 0, 3, 0, 0, 3, 0])"
  by code_simp

text \<open>
  Claim C9, amended. For every consistent handle and every value of
  \<^verbatim>\<open>last_two_bytes\<close>, the call with a NULL data pointer returns the size \<open>n\<close> of the
  value before emulation prevention and leaves \<^verbatim>\<open>last_two_bytes\<close> alone; the call with
  a buffer returns the number \<open>m\<close> of bytes it stored; and \<open>m\<close> is \<open>n\<close> plus the
  number of emulation-prevention bytes that the value needs after \<^verbatim>\<open>last_two_bytes\<close>.
  The two sizes agree exactly when no emulation-prevention byte is inserted.
\<close>

theorem encode_size_query_and_written:
  assumes "handle_ok self"
  shows "\<exists>n m w. encode_axis_communications_handle (Some self) l False = Inr (n, l, []) \<and>
           encode_axis_communications_handle (Some self) l True = Inr (m, w) \<and>
           m = length (snd w) \<and>
           m = n + emulation_prevention_bytes l (axis_payload self)"
  using assms
  by (simp add: encode_writes_payload encode_size_query write_bytes_length axis_payload_length)

theorem encode_size_query_and_written_witness:
  "handle_ok handle_with_both \<and>
   (\<exists>n m w.
      encode_axis_communications_handle (Some handle_with_both) 257 False = Inr (n, 257, []) \<and>
      encode_axis_communications_handle (Some handle_with_both) 257 True = Inr (m, w) \<and>
      m = length (snd w) \<and>
      m = n + emulation_prevention_bytes 257 (axis_payload handle_with_both))"
  using encode_size_query_and_written
    [of handle_with_both 257]
  by (simp add: handle_ok_def handle_with_both_def)

section \<open>Decoding, then encoding\<close>

lemma well_formed_shape:
  assumes "well_formed_axis_tlv_v1 bytes"
  obtains c a where "bytes = axis_tlv_v1 c a" "0 \<notin> set c" "length c < 255" "length a < 256"
proof -
  from assms obtain n rest where b: "bytes = 1 # n # rest"
    and n: "0 < unat n" "unat n < length rest"
    and l: "last (take (unat n) rest) = 0"
    and z: "0 \<notin> set (butlast (take (unat n) rest))"
    and d: "case drop (unat n) rest of m # att \<Rightarrow> length att = unat m | [] \<Rightarrow> False"
    by (auto simp add: well_formed_axis_tlv_v1_def Let_def split: list.splits)
  from d obtain m att where m: "drop (unat n) rest = m # att" "length att = unat m"
    by (auto split: list.splits)
  define c where "c = butlast (take (unat n) rest)"
  have ne: "take (unat n) rest \<noteq> []" using n by auto
  have tk: "take (unat n) rest = c @ [0]"
    using append_butlast_last_id [OF ne] l by (simp add: c_def)
  have lc: "length c + 1 = unat n" using n by (simp add: c_def)
  have "rest = take (unat n) rest @ drop (unat n) rest" by simp
  with tk m have r: "rest = c @ [0] @ m # att" by simp
  have n8: "unat n < 256" using unsigned_less [of n, where ?'a = nat] by simp
  have m8: "unat m < 256" using unsigned_less [of m, where ?'a = nat] by simp
  have "bytes = axis_tlv_v1 c att"
    using b r lc m by (simp add: axis_tlv_v1_def)
  moreover have "0 \<notin> set c" using z by (simp add: c_def)
  moreover have "length c < 255" using lc n8 by simp
  moreover have "length att < 256" using m m8 by simp
  ultimately show ?thesis by (rule that)
qed

lemma takeWhile_nonzero:
  "0 \<notin> set c \<Longrightarrow> takeWhile (\<lambda>b. b \<noteq> 0) (c @ 0 # xs) = (c :: byte list)"
  by (induction c) auto

lemma decode_axis_tlv_v1:
  assumes "0 \<notin> set c" "length c < 255" "length a < 256"
    and "string_alloc_ok al" "attestation_alloc_ok al"
  shows "decode_axis_communications_handle al (Some sv_vendor_axis_communications_setup)
           (axis_tlv_v1 c a @ rest) (length (axis_tlv_v1 c a)) =
         Inr (SVI_OK, Some \<lparr>attestation = (if a = [] then None else Some a),
                            attestation_size = length a, certificate_chain = Some c\<rparr>)"
proof -
  have "unat (word_of_nat (Suc (length c)) :: byte) = Suc (length c) mod 2 ^ LENGTH(8)"
    by (rule unat_of_nat)
  also have "\<dots> = Suc (length c)" using assms(2) by simp
  finally have u1: "unat (1 + word_of_nat (length c) :: byte) = Suc (length c)" by simp
  have u2: "unat (word_of_nat (length a) :: byte) = length a"
    using assms(3) by (simp add: unat_of_nat)
  show ?thesis
    using assms u1 u2
    by (simp add: decode_defs axis_tlv_v1_def sv_vendor_axis_communications_setup_def
        takeWhile_nonzero nth_append Let_def)
qed

text \<open>
  Claim C4, as stated, fails: the well-formed value with an empty certificate chain
  and an attestation of three zero bytes decodes into a fresh handle, and encoding
  that handle gives eight bytes, the seven of the value and an emulation-prevention
  byte in front of the last zero.
\<close>

theorem decode_encode_inserts_emulation_prevention:
  "well_formed_axis_tlv_v1 [1, 1, 0, 3, 0, 0, 0] \<and>
   decode_axis_communications_handle \<lparr>string_alloc_ok = True, attestation_alloc_ok = True\<rparr>
     (Some sv_vendor_axis_communications_setup) [1, 1, 0, 3, 0, 0, 0] 7 =
     Inr (SVI_OK, Some \<lparr>attestation = Some [0, 0, 0], attestation_size = 3,
                        certificate_chain = Some []\<rparr>) \<and>
   encode_axis_communications_handle
     (Some \<lparr>attestation = Some [0, 0, 0], attestation_size = 3, certificate_chain = Some []\<rparr>)
     257 True = Inr (8, 768, [1, 1, 0, 3, 0, 0, 3, 0])"
  by code_simp

lemma write_bytes_acc:
  "snd (write_bytes (l, acc) xs) = acc @ snd (write_bytes (l, []) xs)"
proof (induction xs arbitrary: l acc)
  case Nil
  show ?case by simp
next
  case (Cons b bs)
  show ?case
    using Cons.IH [of _ "acc @ [3, b]"] Cons.IH [of _ "acc @ [b]"]
      Cons.IH [of _ "[3, b]"] Cons.IH [of _ "[b]"]
    by (simp add: write_byte_def)
qed

lemma three_is_escaped: "(3 :: byte) AND NOT 3 = 0"
  by simp

lemma strip_write_bytes:
  "strip_emulation_prevention l (snd (write_bytes (l, []) xs)) = xs"
proof (induction xs arbitrary: l)
  case Nil
  show ?case by simp
next
  case (Cons b bs)
  show ?case
  proof (cases "b AND NOT 3 = 0 \<and> l = 0")
    case True
    have "snd (write_bytes (l, []) (b # bs)) =
          [3, b] @ snd (write_bytes (push_bit 8 (push_bit 8 l OR 3) OR ucast b, []) bs)"
      using True
        write_bytes_acc [where l = "push_bit 8 (push_bit 8 l OR 3) OR ucast b"
          and acc = "[3, b]" and xs = bs]
      by (simp add: write_byte_def)
    with True show ?thesis
      using Cons.IH [of "push_bit 8 (push_bit 8 l OR 3) OR ucast b"] by simp
  next
    case False
    have "snd (write_bytes (l, []) (b # bs)) =
          [b] @ snd (write_bytes (push_bit 8 l OR ucast b, []) bs)"
      using False
        write_bytes_acc [where l = "push_bit 8 l OR ucast b" and acc = "[b]" and xs = bs]
      by (auto simp add: write_byte_def)
    moreover have "\<not> (l = 0 \<and> b = 3)" using False three_is_escaped by auto
    ultimately show ?thesis using Cons.IH [of "push_bit 8 l OR ucast b"] by auto
  qed
qed

text \<open>
  Claim C4, amended. For every well-formed version-1 value, followed by whatever the
  enclosing object holds after it, and with both allocations of the decoder
  succeeding: decoding it into a fresh handle returns \<open>SVI_OK\<close>, and encoding the
  handle returns the number of bytes it stored. The stored bytes are the bytes of the
  original value, in order, written one by one with emulation prevention after
  \<^verbatim>\<open>last_two_bytes\<close>; there are as many of them as the value has bytes, plus the
  emulation-prevention bytes it needs; stripping the emulation prevention from them
  gives the original value back, in every case; and they are the original value
  itself if and only if the value needs no emulation-prevention byte.
\<close>

theorem decode_then_encode:
  assumes "well_formed_axis_tlv_v1 bytes" "string_alloc_ok al" "attestation_alloc_ok al"
  shows "\<exists>h w. decode_axis_communications_handle al (Some sv_vendor_axis_communications_setup)
                 (bytes @ rest) (length bytes) = Inr (SVI_OK, Some h) \<and>
               encode_axis_communications_handle (Some h) l True = Inr (length (snd w), w) \<and>
               w = write_bytes (l, []) bytes \<and>
               strip_emulation_prevention l (snd w) = bytes \<and>
               length (snd w) = length bytes + emulation_prevention_bytes l bytes \<and>
               (snd w = bytes \<longleftrightarrow> emulation_prevention_bytes l bytes = 0)"
proof -
  from assms(1) obtain c a where b: "bytes = axis_tlv_v1 c a"
    and c: "0 \<notin> set c" "length c < 255"
    and a: "length a < 256" by (rule well_formed_shape)
  define h where "h = \<lparr>attestation = (if a = [] then None else Some a),
                            attestation_size = length a, certificate_chain = Some c\<rparr>"
  have ok: "handle_ok h" by (simp add: h_def handle_ok_def)
  have p: "axis_payload h = bytes" by (simp add: h_def axis_payload_def b axis_tlv_v1_def)
  define w where "w = write_bytes (l, []) bytes"
  have d: "decode_axis_communications_handle al (Some sv_vendor_axis_communications_setup)
                 (bytes @ rest) (length bytes) = Inr (SVI_OK, Some h)"
    unfolding b h_def using c a assms(2,3) by (rule decode_axis_tlv_v1)
  have e: "encode_axis_communications_handle (Some h) l True = Inr (length (snd w), w)"
    using encode_writes_payload [OF ok, of l] by (simp add: p w_def)
  have s: "strip_emulation_prevention l (snd w) = bytes"
    unfolding w_def by (rule strip_write_bytes)
  have n: "length (snd w) = length bytes + emulation_prevention_bytes l bytes"
    by (simp add: w_def write_bytes_length)
  have q: "snd w = bytes \<longleftrightarrow> emulation_prevention_bytes l bytes = 0"
  proof
    assume "snd w = bytes"
    then have "length (snd w) = length bytes" by simp
    with n show "emulation_prevention_bytes l bytes = 0" by simp
  next
    assume "emulation_prevention_bytes l bytes = 0"
    then show "snd w = bytes" using write_bytes_plain [of l bytes "[]"] by (simp add: w_def)
  qed
  show ?thesis
  proof (intro exI [of _ h] exI [of _ w] conjI)
    show "w = write_bytes (l, []) bytes" by (rule w_def)
  qed (rule d e s n q)+
qed

text \<open>
  The value with an empty certificate chain and an attestation of three zero bytes:
  the encoder stores it with one emulation-prevention byte, and stripping that byte
  gives the value back.
\<close>

theorem decode_then_encode_witness:
  "well_formed_axis_tlv_v1 [1, 1, 0, 3, 0, 0, 0] \<and>
   (\<exists>h w. decode_axis_communications_handle
             \<lparr>string_alloc_ok = True, attestation_alloc_ok = True\<rparr>
             (Some sv_vendor_axis_communications_setup)
             ([1, 1, 0, 3, 0, 0, 0] @ []) (length [1, 1, 0, 3, 0, 0, 0 :: byte]) =
             Inr (SVI_OK, Some h) \<and>
           encode_axis_communications_handle (Some h) 257 True = Inr (8, w) \<and>
           snd w = [1, 1, 0, 3, 0, 0, 3, 0] \<and>
           strip_emulation_prevention 257 (snd w) = [1, 1, 0, 3, 0, 0, 0])"
proof -
  have wf: "well_formed_axis_tlv_v1 [1, 1, 0, 3, 0, 0, 0]"
    by (simp add: well_formed_axis_tlv_v1_def)
  have ev: "write_bytes (257, []) [1, 1, 0, 3, 0, 0, 0] = (768, [1, 1, 0, 3, 0, 0, 3, 0])"
    by code_simp
  have a1: "string_alloc_ok \<lparr>string_alloc_ok = True, attestation_alloc_ok = True\<rparr>"
    by simp
  have a2: "attestation_alloc_ok \<lparr>string_alloc_ok = True, attestation_alloc_ok = True\<rparr>"
    by simp
  from decode_then_encode [OF wf a1 a2, where rest = "[]" and l = 257]
  obtain h w where
    d: "decode_axis_communications_handle
          \<lparr>string_alloc_ok = True, attestation_alloc_ok = True\<rparr>
          (Some sv_vendor_axis_communications_setup)
          ([1, 1, 0, 3, 0, 0, 0] @ []) (length [1, 1, 0, 3, 0, 0, 0 :: byte]) =
          Inr (SVI_OK, Some h)"
    and e: "encode_axis_communications_handle (Some h) 257 True = Inr (length (snd w), w)"
    and w: "w = write_bytes (257, []) [1, 1, 0, 3, 0, 0, 0]"
    and s: "strip_emulation_prevention 257 (snd w) = [1, 1, 0, 3, 0, 0, 0]"
    by (elim exE conjE) (rule that)
  from w ev have sw: "snd w = [1, 1, 0, 3, 0, 0, 3, 0]" by simp
  with e have e8: "encode_axis_communications_handle (Some h) 257 True = Inr (8, w)" by simp
  from wf d e8 sw s show ?thesis by blast
qed

section \<open>Bad input to the validation entry point\<close>

text \<open>
  Claim C8. The entry point returns \<open>SV_INVALID_PARAMETER\<close> whenever the session
  pointer is NULL, the data pointer is NULL or the size is zero. For a NAL unit that
  the parser reports as erroneous or as invalid (\<^verbatim>\<open>is_valid\<close> at most 0) it returns
  \<open>SV_OK\<close>, and the session goes on with one more item at the end of its list, which
  holds the parsed unit and the status \<open>E\<close> or \<open>U\<close>; this holds for every parser and
  every validation engine.
\<close>

theorem add_nalu_and_authenticate_bad_input:
  "(sv = None \<or> nalu_data = None \<or> nalu_data_size = 0 \<longrightarrow>
      fst (signed_video_add_nalu_and_authenticate parse_nalu_info authenticate sv nalu_data
             nalu_data_size) = SV_INVALID_PARAMETER) \<and>
   (sv = Some self \<and> nalu_data = Some bytes \<and> 0 < nalu_data_size \<and>
      is_valid (parse_nalu_info bytes nalu_data_size (codec self) True) \<le> 0 \<longrightarrow>
      (\<exists>st. (st = CHR ''E'' \<or> st = CHR ''U'') \<and>
         signed_video_add_nalu_and_authenticate parse_nalu_info authenticate sv nalu_data
           nalu_data_size =
         (SV_OK, Some (self\<lparr>nalu_list := nalu_list self @
            [\<lparr>nalu = parse_nalu_info bytes nalu_data_size (codec self) True,
              validation_status = st\<rparr>]\<rparr>))))"
  by (auto simp add: signed_video_add_nalu_and_authenticate_def Let_def split: option.splits)

text \<open>
  An undefined NAL unit of four bytes, which the parser calls invalid, on an empty
  session.
\<close>

theorem add_nalu_and_authenticate_bad_input_witness:
  "signed_video_add_nalu_and_authenticate
     (\<lambda>bytes n c t. \<lparr>nalu_type = NALU_TYPE_UNDEFINED, is_valid = 0, is_hashable = False,
                     is_gop_sei = False\<rparr>)
     (\<lambda>s. (SV_UNKNOWN, s))
     (Some \<lparr>codec = SV_CODEC_H264, nalu_list = [], engine_state = ()\<rparr>)
     (Some [0, 0, 0, 1]) 4 =
   (SV_OK, Some \<lparr>codec = SV_CODEC_H264,
                 nalu_list = [\<lparr>nalu = \<lparr>nalu_type = NALU_TYPE_UNDEFINED, is_valid = 0,
                                        is_hashable = False, is_gop_sei = False\<rparr>,
                               validation_status = CHR ''U''\<rparr>],
                 engine_state = ()\<rparr>)"
  using add_nalu_and_authenticate_bad_input
    [of "Some \<lparr>codec = SV_CODEC_H264, nalu_list = [], engine_state = ()\<rparr>"
        "Some [0, 0, 0, 1]" 4
        "\<lambda>bytes n c t. \<lparr>nalu_type = NALU_TYPE_UNDEFINED, is_valid = 0, is_hashable = False,
                        is_gop_sei = False\<rparr>"
        "\<lambda>s. (SV_UNKNOWN, s)"
        "\<lparr>codec = SV_CODEC_H264, nalu_list = [], engine_state = ()\<rparr>"
        "[0, 0, 0, 1]"]
  by (simp add: signed_video_add_nalu_and_authenticate_def)

end
